theory Spec2Isabelle
  imports Complex_Main "HOL-Library.Word" "HOL-Library.Sublist"
begin

section \<open>JavaScript values used by the two source files\<close>

text \<open>
  A JavaScript string is a sequence of 16-bit code units. A value of type \<open>string\<close> that
  may also be \<open>null\<close> or \<open>undefined\<close> is an option, \<open>None\<close> standing for the missing
  value. \<open>js_str\<close> writes an ASCII literal as such a sequence.
\<close>

type_synonym js_string = "16 word list"

definition js_str :: "string \<Rightarrow> js_string" where
  "js_str s = map of_char s"

text \<open>\<open>String.prototype.charCodeAt\<close>: the code unit at the index, \<open>None\<close> for \<open>NaN\<close>.\<close>

definition charCodeAt :: "js_string \<Rightarrow> nat \<Rightarrow> 16 word option" where
  "charCodeAt s i = (if i < length s then Some (s ! i) else None)"

text \<open>\<open>String.prototype.substr(start, length)\<close> for a start that is not negative.\<close>

definition substr :: "js_string \<Rightarrow> nat \<Rightarrow> nat \<Rightarrow> js_string" where
  "substr s start len = take len (drop start s)"

text \<open>
  The members of the enumeration \<open>CharCode\<close> that the source names. The enumeration is
  imported from \<open>vs/base/common/charCode\<close>; each member is the code unit of its character.
\<close>

abbreviation (input) CharCode_Hash :: "16 word" where "CharCode_Hash \<equiv> 35"
abbreviation (input) CharCode_Digit0 :: "16 word" where "CharCode_Digit0 \<equiv> 48"
abbreviation (input) CharCode_Digit1 :: "16 word" where "CharCode_Digit1 \<equiv> 49"
abbreviation (input) CharCode_Digit2 :: "16 word" where "CharCode_Digit2 \<equiv> 50"
abbreviation (input) CharCode_Digit3 :: "16 word" where "CharCode_Digit3 \<equiv> 51"
abbreviation (input) CharCode_Digit4 :: "16 word" where "CharCode_Digit4 \<equiv> 52"
abbreviation (input) CharCode_Digit5 :: "16 word" where "CharCode_Digit5 \<equiv> 53"
abbreviation (input) CharCode_Digit6 :: "16 word" where "CharCode_Digit6 \<equiv> 54"
abbreviation (input) CharCode_Digit7 :: "16 word" where "CharCode_Digit7 \<equiv> 55"
abbreviation (input) CharCode_Digit8 :: "16 word" where "CharCode_Digit8 \<equiv> 56"
abbreviation (input) CharCode_Digit9 :: "16 word" where "CharCode_Digit9 \<equiv> 57"
abbreviation (input) CharCode_A :: "16 word" where "CharCode_A \<equiv> 65"
abbreviation (input) CharCode_B :: "16 word" where "CharCode_B \<equiv> 66"
abbreviation (input) CharCode_C :: "16 word" where "CharCode_C \<equiv> 67"
abbreviation (input) CharCode_D :: "16 word" where "CharCode_D \<equiv> 68"
abbreviation (input) CharCode_E :: "16 word" where "CharCode_E \<equiv> 69"
abbreviation (input) CharCode_F :: "16 word" where "CharCode_F \<equiv> 70"
abbreviation (input) CharCode_a :: "16 word" where "CharCode_a \<equiv> 97"
abbreviation (input) CharCode_b :: "16 word" where "CharCode_b \<equiv> 98"
abbreviation (input) CharCode_c :: "16 word" where "CharCode_c \<equiv> 99"
abbreviation (input) CharCode_d :: "16 word" where "CharCode_d \<equiv> 100"
abbreviation (input) CharCode_e :: "16 word" where "CharCode_e \<equiv> 101"
abbreviation (input) CharCode_f :: "16 word" where "CharCode_f \<equiv> 102"





section \<open>ParsedColor\<close>

text \<open>
  The channels are JavaScript numbers, and the constructor takes any three of them. The
  type of the channels is left open: it is \<open>int\<close> in \<open>ParsedColor\<close>, for the colours
  that the program constructs (from the bytes of an RGBA colour, or from two parsed
  hexadecimal digits), and \<open>rat\<close> for three arbitrary numbers. \<open>new_parsed_color\<close> is
  the constructor; its first argument reads a channel as a number, so that the quotient
  is taken in the rationals. On integers the sum is exact in double precision, and the
  rounded quotient lies on the same side of \<open>0.5\<close> as the exact one.
\<close>

record 'n parsed_color =
  r :: 'n
  g :: 'n
  b :: 'n
  isLight :: bool

type_synonym ParsedColor = "int parsed_color"

definition new_parsed_color :: "('n \<Rightarrow> rat) \<Rightarrow> 'n \<Rightarrow> 'n \<Rightarrow> 'n \<Rightarrow> 'n parsed_color" where
  "new_parsed_color num r0 g0 b0 =
     \<lparr> r = r0, g = g0, b = b0,
       isLight = ((num r0 + num g0 + num b0) / (3 * 255) > 1 / 2) \<rparr>"

definition new_ParsedColor :: "int \<Rightarrow> int \<Rightarrow> int \<Rightarrow> ParsedColor" where
  "new_ParsedColor r0 g0 b0 = new_parsed_color of_int r0 g0 b0"




section \<open>MinimapTokensColorTracker\<close>

text \<open>
  The colour table \<open>_colors\<close> is an array whose element 0 is \<open>null\<close>; \<open>None\<close> is
  \<open>null\<close> as an element and \<open>undefined\<close> as the result of a read past the end. The
  colour map of the registry is taken as the list of the channels that \<open>toRGBA\<close> gives
  for each entry.
\<close>

type_synonym color_table = "ParsedColor option list"

definition rgbColor :: "int \<times> int \<times> int \<Rightarrow> ParsedColor" where
  "rgbColor color = (case color of (r0, g0, b0) \<Rightarrow> new_ParsedColor r0 g0 b0)"

definition setColorMap :: "(int \<times> int \<times> int) list \<Rightarrow> color_table" where
  "setColorMap colorMap = None # map (\<lambda>color. Some (rgbColor color)) (tl colorMap)"

definition js_index :: "'a option list \<Rightarrow> int \<Rightarrow> 'a option" where
  "js_index xs i = (if 0 \<le> i \<and> i < int (length xs) then xs ! nat i else None)"

definition getColor :: "color_table \<Rightarrow> int \<Rightarrow> ParsedColor option" where
  "getColor colors colorId =
     (let colorId = (if colorId < 1 \<or> colorId \<ge> int (length colors) then 2 else colorId)
      in js_index colors colorId)"

definition parseHexDigit :: "16 word option \<Rightarrow> int" where
  "parseHexDigit charCode =
     (case charCode of
        None \<Rightarrow> 0
      | Some c \<Rightarrow>
         (if c = CharCode_Digit0 then 0
          else if c = CharCode_Digit1 then 1
          else if c = CharCode_Digit2 then 2
          else if c = CharCode_Digit3 then 3
          else if c = CharCode_Digit4 then 4
          else if c = CharCode_Digit5 then 5
          else if c = CharCode_Digit6 then 6
          else if c = CharCode_Digit7 then 7
          else if c = CharCode_Digit8 then 8
          else if c = CharCode_Digit9 then 9
          else if c = CharCode_a then 10
          else if c = CharCode_A then 10
          else if c = CharCode_b then 11
          else if c = CharCode_B then 11
          else if c = CharCode_c then 12
          else if c = CharCode_C then 12
          else if c = CharCode_d then 13
          else if c = CharCode_D then 13
          else if c = CharCode_e then 14
          else if c = CharCode_E then 14
          else if c = CharCode_f then 15
          else if c = CharCode_F then 15
          else 0))"

definition parseColor :: "js_string option \<Rightarrow> ParsedColor" where
  "parseColor color =
     (case color of
        None \<Rightarrow> new_ParsedColor 0 0 0
      | Some s \<Rightarrow>
         if s = [] then new_ParsedColor 0 0 0
         else
           let s = (if charCodeAt s 0 = Some CharCode_Hash then substr s 1 6 else substr s 0 6)
           in if length s \<noteq> 6 then new_ParsedColor 0 0 0
              else
                let r0 = 16 * parseHexDigit (charCodeAt s 0) + parseHexDigit (charCodeAt s 1);
                    g0 = 16 * parseHexDigit (charCodeAt s 2) + parseHexDigit (charCodeAt s 3);
                    b0 = 16 * parseHexDigit (charCodeAt s 4) + parseHexDigit (charCodeAt s 5)
                in new_ParsedColor r0 g0 b0)"

text \<open>
  The words of the specification about the parser: the normalized form of a string (an
  optional leading \<open>#\<close> removed, then cut to 6 characters), the hexadecimal digits, and
  the value of one.
\<close>

definition spec_normalized :: "js_string \<Rightarrow> js_string" where
  "spec_normalized s = take 6 (case s of [] \<Rightarrow> [] | c # cs \<Rightarrow> if c = 35 then cs else s)"

definition isHexDigit :: "16 word \<Rightarrow> bool" where
  "isHexDigit c = (c \<in> set (js_str ''0123456789abcdefABCDEF''))"

definition hexValue :: "16 word \<Rightarrow> int" where
  "hexValue c =
     (if unat c \<le> 57 then int (unat c) - 48
      else if unat c \<le> 70 then int (unat c) - 55
      else int (unat c) - 87)"

text \<open>The value of a character as a digit when every other character counts as 0.\<close>

definition hexValueOrZero :: "16 word \<Rightarrow> int" where
  "hexValueOrZero c = (if isHexDigit c then hexValue c else 0)"

section \<open>Typed arrays\<close>

text \<open>
  A \<open>Uint8ClampedArray\<close> is a list of bytes. A number that takes part in a division is
  a rational, or \<open>None\<close> for \<open>NaN\<close>: the arithmetic of the model is exact where the
  source computes in double precision. For channels and samples that are bytes the two
  agree on every stored byte: the exact value of \<open>background + delta * (sample / 255)\<close>
  is a multiple of \<open>1 / 255\<close>, at least \<open>1 / 510\<close> away from every tie between two
  integers, and the rounding error of the doubles is far smaller.

  A read outside the array gives \<open>undefined\<close>, which is \<open>NaN\<close> in the arithmetic that
  follows. A store outside the array, also at a negative index, is ignored, as the
  engines have it. A store inside converts the number with \<open>ToUint8Clamp\<close>: \<open>NaN\<close> is
  0, the range is cut to 0..255, the nearest integer is taken and a tie goes to the even
  neighbour.
\<close>

type_synonym u8c_array = "8 word list"
type_synonym js_number = "rat option"

definition toUint8Clamp :: "js_number \<Rightarrow> 8 word" where
  "toUint8Clamp v =
     (case v of
        None \<Rightarrow> 0
      | Some x \<Rightarrow>
          if x \<le> 0 then 0
          else if x \<ge> 255 then 255
          else
            let f = \<lfloor>x\<rfloor> in
            if of_int f + 1 / 2 < x then word_of_int (f + 1)
            else if x < of_int f + 1 / 2 then word_of_int f
            else if even f then word_of_int f
            else word_of_int (f + 1))"

definition u8c_get :: "u8c_array \<Rightarrow> int \<Rightarrow> js_number" where
  "u8c_get a i = (if 0 \<le> i \<and> i < int (length a) then Some (of_int (uint (a ! nat i))) else None)"

definition u8c_set :: "u8c_array \<Rightarrow> int \<times> js_number \<Rightarrow> u8c_array" where
  "u8c_set a st =
     (case st of (i, v) \<Rightarrow>
        if 0 \<le> i \<and> i < int (length a) then a[nat i := toUint8Clamp v] else a)"

section \<open>MinimapCharRenderer\<close>

abbreviation (input) START_CH_CODE :: int where "START_CH_CODE \<equiv> 32"
abbreviation (input) END_CH_CODE :: int where "END_CH_CODE \<equiv> 126"
abbreviation (input) CHAR_COUNT :: int where "CHAR_COUNT \<equiv> END_CH_CODE - START_CH_CODE + 1"
abbreviation (input) x2_CHAR_HEIGHT :: int where "x2_CHAR_HEIGHT \<equiv> 4"
abbreviation (input) x2_CHAR_WIDTH :: int where "x2_CHAR_WIDTH \<equiv> 2"
abbreviation (input) x1_CHAR_HEIGHT :: int where "x1_CHAR_HEIGHT \<equiv> 2"
abbreviation (input) x1_CHAR_WIDTH :: int where "x1_CHAR_WIDTH \<equiv> 1"
abbreviation (input) RGBA_CHANNELS_CNT :: int where "RGBA_CHANNELS_CNT \<equiv> 4"

record MinimapCharRenderer =
  x2charData :: u8c_array
  x1charData :: u8c_array
  x2charDataLight :: u8c_array
  x1charDataLight :: u8c_array

text \<open>
  \<open>soften\<close> stores \<open>input[i] * ratio\<close> into a new clamped array. The ratios of the
  constructor, \<open>12 / 15\<close> and \<open>50 / 60\<close>, are taken exactly.
\<close>

definition soften :: "u8c_array \<Rightarrow> rat \<Rightarrow> u8c_array" where
  "soften input ratio = map (\<lambda>x. toUint8Clamp (Some (of_int (uint x) * ratio))) input"

text \<open>The constructor; \<open>Inl\<close> is the message of the error it throws.\<close>

definition new_MinimapCharRenderer :: "u8c_array \<Rightarrow> u8c_array \<Rightarrow> string + MinimapCharRenderer" where
  "new_MinimapCharRenderer x2CharData x1CharData =
     (let x2ExpectedLen = x2_CHAR_HEIGHT * x2_CHAR_WIDTH * CHAR_COUNT in
      if int (length x2CharData) \<noteq> x2ExpectedLen then Inl ''Invalid x2CharData''
      else
        let x1ExpectedLen = x1_CHAR_HEIGHT * x1_CHAR_WIDTH * CHAR_COUNT in
        if int (length x1CharData) \<noteq> x1ExpectedLen then Inl ''Invalid x1CharData''
        else Inr \<lparr> x2charData = x2CharData, x1charData = x1CharData,
                   x2charDataLight = soften x2CharData (12 / 15),
                   x1charDataLight = soften x1CharData (50 / 60) \<rparr>)"

text \<open>The remainder operator \<open>%\<close> of JavaScript on integers: the sign of the dividend.\<close>

definition js_rem :: "int \<Rightarrow> int \<Rightarrow> int" where
  "js_rem a m = sgn a * (\<bar>a\<bar> mod \<bar>m\<bar>)"

definition getChIndex :: "int \<Rightarrow> int" where
  "getChIndex chCode =
     (let chCode = chCode - START_CH_CODE;
          chCode = (if chCode < 0 then chCode + CHAR_COUNT else chCode)
      in js_rem chCode CHAR_COUNT)"

record ImageData =
  width :: nat
  height :: nat
  data :: u8c_array

text \<open>\<open>x / 255\<close> and \<open>background + delta * c\<close> on numbers that may be \<open>NaN\<close>.\<close>

definition div255 :: "js_number \<Rightarrow> js_number" where
  "div255 x = map_option (\<lambda>v. v / 255) x"

definition blend :: "int \<Rightarrow> int \<Rightarrow> js_number \<Rightarrow> js_number" where
  "blend background delta c = map_option (\<lambda>v. of_int background + of_int delta * v) c"

text \<open>
  The body of \<open>x2RenderChar\<close> after its guard never reads the target, so it is the list
  of its assignments \<open>dest[i] = v\<close> in program order; \<open>x2RenderChar\<close> performs them on
  \<open>target.data\<close>. The first component of the result is what went to \<open>console.warn\<close>.
\<close>

definition x2_stores ::
  "MinimapCharRenderer \<Rightarrow> ImageData \<Rightarrow> int \<Rightarrow> int \<Rightarrow> int \<Rightarrow> ParsedColor \<Rightarrow> ParsedColor
   \<Rightarrow> (int \<times> js_number) list" where
  "x2_stores rnd target dx dy chCode color backgroundColor =
     (let x2CharData = (if isLight backgroundColor then x2charDataLight rnd else x2charData rnd);
          chIndex = getChIndex chCode;
          outWidth = int (width target) * RGBA_CHANNELS_CNT;
          backgroundR = r backgroundColor;
          backgroundG = g backgroundColor;
          backgroundB = b backgroundColor;
          deltaR = r color - backgroundR;
          deltaG = g color - backgroundG;
          deltaB = b color - backgroundB;
          sourceOffset = chIndex * x2_CHAR_HEIGHT * x2_CHAR_WIDTH;
          destOffset0 = dy * outWidth + dx * RGBA_CHANNELS_CNT;
          c0 = div255 (u8c_get x2CharData sourceOffset);
          c1 = div255 (u8c_get x2CharData (sourceOffset + 1));
          destOffset1 = destOffset0 + outWidth;
          c2 = div255 (u8c_get x2CharData (sourceOffset + 2));
          c3 = div255 (u8c_get x2CharData (sourceOffset + 3));
          destOffset2 = destOffset1 + outWidth;
          c4 = div255 (u8c_get x2CharData (sourceOffset + 4));
          c5 = div255 (u8c_get x2CharData (sourceOffset + 5));
          destOffset3 = destOffset2 + outWidth;
          c6 = div255 (u8c_get x2CharData (sourceOffset + 6));
          c7 = div255 (u8c_get x2CharData (sourceOffset + 7))
      in [(destOffset0 + 0, blend backgroundR deltaR c0),
          (destOffset0 + 1, blend backgroundG deltaG c0),
          (destOffset0 + 2, blend backgroundB deltaB c0),
          (destOffset0 + 4, blend backgroundR deltaR c1),
          (destOffset0 + 5, blend backgroundG deltaG c1),
          (destOffset0 + 6, blend backgroundB deltaB c1),
          (destOffset1 + 0, blend backgroundR deltaR c2),
          (destOffset1 + 1, blend backgroundG deltaG c2),
          (destOffset1 + 2, blend backgroundB deltaB c2),
          (destOffset1 + 4, blend backgroundR deltaR c3),
          (destOffset1 + 5, blend backgroundG deltaG c3),
          (destOffset1 + 6, blend backgroundB deltaB c3),
          (destOffset2 + 0, blend backgroundR deltaR c4),
          (destOffset2 + 1, blend backgroundG deltaG c4),
          (destOffset2 + 2, blend backgroundB deltaB c4),
          (destOffset2 + 4, blend backgroundR deltaR c5),
          (destOffset2 + 5, blend backgroundG deltaG c5),
          (destOffset2 + 6, blend backgroundB deltaB c5),
          (destOffset3 + 0, blend backgroundR deltaR c6),
          (destOffset3 + 1, blend backgroundG deltaG c6),
          (destOffset3 + 2, blend backgroundB deltaB c6),
          (destOffset3 + 4, blend backgroundR deltaR c7),
          (destOffset3 + 5, blend backgroundG deltaG c7),
          (destOffset3 + 6, blend backgroundB deltaB c7)])"

definition x2RenderChar ::
  "MinimapCharRenderer \<Rightarrow> ImageData \<Rightarrow> int \<Rightarrow> int \<Rightarrow> int \<Rightarrow> ParsedColor \<Rightarrow> ParsedColor
   \<Rightarrow> string list \<times> ImageData" where
  "x2RenderChar rnd target dx dy chCode color backgroundColor =
     (if dx + x2_CHAR_WIDTH > int (width target) \<or> dy + x2_CHAR_HEIGHT > int (height target)
      then ([''bad render request outside image data''], target)
      else ([], target\<lparr> data :=
              foldl u8c_set (data target)
                (x2_stores rnd target dx dy chCode color backgroundColor) \<rparr>))"

definition x1_stores ::
  "MinimapCharRenderer \<Rightarrow> ImageData \<Rightarrow> int \<Rightarrow> int \<Rightarrow> int \<Rightarrow> ParsedColor \<Rightarrow> ParsedColor
   \<Rightarrow> (int \<times> js_number) list" where
  "x1_stores rnd target dx dy chCode color backgroundColor =
     (let x1CharData = (if isLight backgroundColor then x1charDataLight rnd else x1charData rnd);
          chIndex = getChIndex chCode;
          outWidth = int (width target) * RGBA_CHANNELS_CNT;
          backgroundR = r backgroundColor;
          backgroundG = g backgroundColor;
          backgroundB = b backgroundColor;
          deltaR = r color - backgroundR;
          deltaG = g color - backgroundG;
          deltaB = b color - backgroundB;
          sourceOffset = chIndex * x1_CHAR_HEIGHT * x1_CHAR_WIDTH;
          destOffset0 = dy * outWidth + dx * RGBA_CHANNELS_CNT;
          c0 = div255 (u8c_get x1CharData sourceOffset);
          destOffset1 = destOffset0 + outWidth;
          c1 = div255 (u8c_get x1CharData (sourceOffset + 1))
      in [(destOffset0 + 0, blend backgroundR deltaR c0),
          (destOffset0 + 1, blend backgroundG deltaG c0),
          (destOffset0 + 2, blend backgroundB deltaB c0),
          (destOffset1 + 0, blend backgroundR deltaR c1),
          (destOffset1 + 1, blend backgroundG deltaG c1),
          (destOffset1 + 2, blend backgroundB deltaB c1)])"

definition x1RenderChar ::
  "MinimapCharRenderer \<Rightarrow> ImageData \<Rightarrow> int \<Rightarrow> int \<Rightarrow> int \<Rightarrow> ParsedColor \<Rightarrow> ParsedColor
   \<Rightarrow> string list \<times> ImageData" where
  "x1RenderChar rnd target dx dy chCode color backgroundColor =
     (if dx + x1_CHAR_WIDTH > int (width target) \<or> dy + x1_CHAR_HEIGHT > int (height target)
      then ([''bad render request outside image data''], target)
      else ([], target\<lparr> data :=
              foldl u8c_set (data target)
                (x1_stores rnd target dx dy chCode color backgroundColor) \<rparr>))"

text \<open>
  The words of the specification about rendering. An \<open>ImageData\<close> holds its pixels row
  by row, four bytes (red, green, blue, alpha) for each: \<open>pixel_offset\<close> is the index of
  the first byte of the pixel in column \<open>x\<close> of row \<open>y\<close>. \<open>spec_interpolate\<close> is the
  value between the background channel and the foreground channel for a sample intensity,
  and \<open>channel\<close> picks the red, green or blue channel of a colour by its number.
\<close>

definition pixel_offset :: "ImageData \<Rightarrow> int \<Rightarrow> int \<Rightarrow> int" where
  "pixel_offset target x y = (y * int (width target) + x) * 4"

definition spec_interpolate :: "int \<Rightarrow> int \<Rightarrow> 8 word \<Rightarrow> rat" where
  "spec_interpolate backgroundChannel foregroundChannel sampleIntensity =
     of_int backgroundChannel
       + of_int (foregroundChannel - backgroundChannel) * (of_int (uint sampleIntensity) / 255)"

definition channel :: "int \<Rightarrow> ParsedColor \<Rightarrow> int" where
  "channel k p = (if k = 0 then r p else if k = 1 then g p else b p)"

section \<open>GitContentProvider\<close>

text \<open>
  A promise that has settled. A \<open>Set\<close> of JavaScript keeps its members in insertion
  order and holds none twice; the members here are \<open>Uri\<close> objects, compared by identity,
  so the type of the members is left open.
\<close>

datatype ('a, 'e) promise = Resolved 'a | Rejected 'e

definition set_add :: "'u list \<Rightarrow> 'u \<Rightarrow> 'u list" where
  "set_add xs u = (if u \<in> set xs then xs else xs @ [u])"

definition set_delete :: "'u list \<Rightarrow> 'u \<Rightarrow> 'u list" where
  "set_delete xs u = removeAll u xs"

text \<open>
  The state of a provider: the set \<open>uris\<close>, and the values that \<open>onDidChangeEmitter\<close>
  has fired so far, in order.
\<close>

record 'u GitContentProvider =
  uris :: "'u list"
  fired :: "'u list"






text \<open>
  \<open>provideTextDocumentContent\<close>, given how the promise of \<open>model.show(uri.query, uri)\<close>
  settles. The result is the promise that the asynchronous function returns.
\<close>

definition provideTextDocumentContent ::
  "('u \<Rightarrow> (js_string, 'e) promise) \<Rightarrow> 'u \<Rightarrow> 'u GitContentProvider
   \<Rightarrow> (js_string, 'e) promise \<times> 'u GitContentProvider" where
  "provideTextDocumentContent model_show uri s =
     (case model_show uri of
        Resolved result \<Rightarrow> (Resolved result, s\<lparr> uris := set_add (uris s) uri \<rparr>)
      | Rejected err \<Rightarrow> (Resolved [], s\<lparr> uris := set_delete (uris s) uri \<rparr>))"





section \<open>Properties of the colour parser\<close>

lemma parseHexDigit_hex: "isHexDigit c \<Longrightarrow> parseHexDigit (Some c) = hexValue c"
  unfolding isHexDigit_def js_str_def parseHexDigit_def hexValue_def
  by auto

lemma parseColor_norm:
  "s \<noteq> [] \<Longrightarrow> parseColor (Some s) =
     (let n = spec_normalized s in
      if length n \<noteq> 6 then new_ParsedColor 0 0 0
      else new_ParsedColor (16 * parseHexDigit (Some (n ! 0)) + parseHexDigit (Some (n ! 1)))
        (16 * parseHexDigit (Some (n ! 2)) + parseHexDigit (Some (n ! 3)))
        (16 * parseHexDigit (Some (n ! 4)) + parseHexDigit (Some (n ! 5))))"
  by (cases s) (simp_all add: parseColor_def spec_normalized_def charCodeAt_def substr_def Let_def)















lemma length_setColorMap: "length (setColorMap colorMap) = max 1 (length colorMap)"
  by (cases colorMap) (simp_all add: setColorMap_def)

lemma setColorMap_nth:
  "0 < i \<Longrightarrow> i < length colorMap \<Longrightarrow> setColorMap colorMap ! i = Some (rgbColor (colorMap ! i))"
  by (cases colorMap; cases i) (simp_all add: setColorMap_def)

lemma getColor_out: "colorId < 1 \<or> int (length colors) \<le> colorId \<Longrightarrow> getColor colors colorId = js_index colors 2"
  by (auto simp add: getColor_def)

lemma getColor_in: "1 \<le> colorId \<Longrightarrow> colorId < int (length colors) \<Longrightarrow> getColor colors colorId = colors ! nat colorId"
  by (simp add: getColor_def js_index_def)

lemma js_index_setColorMap_2: "2 < length colorMap \<Longrightarrow> js_index (setColorMap colorMap) 2 = Some (rgbColor (colorMap ! 2))"
  using setColorMap_nth [of 2 colorMap] by (simp add: js_index_def length_setColorMap)

text \<open>
  Claim C4. For every colour table and every identifier below 1 or not below the length of
  the table, \<open>getColor\<close> returns what the table holds at identifier 2 (nothing when the
  table has fewer than 3 entries); for an identifier from 1 up to the length it returns
  the entry at that identifier. On a table built by \<open>setColorMap\<close> these are the colours
  of the colour map at the identifier and at 2.
\<close>

theorem getColor_clamps_to_background:
  "(colorId < 1 \<or> int (length colors) \<le> colorId \<longrightarrow> getColor colors colorId = js_index colors 2)
   \<and> (1 \<le> colorId \<and> colorId < int (length colors) \<longrightarrow> getColor colors colorId = colors ! nat colorId)
   \<and> (1 \<le> colorId \<and> colorId < int (length colorMap) \<longrightarrow>
        getColor (setColorMap colorMap) colorId = Some (rgbColor (colorMap ! nat colorId)))
   \<and> ((colorId < 1 \<or> int (length colorMap) \<le> colorId) \<and> 2 < length colorMap \<longrightarrow>
        getColor (setColorMap colorMap) colorId = Some (rgbColor (colorMap ! 2)))"
proof (intro conjI impI)
  assume "colorId < 1 \<or> int (length colors) \<le> colorId"
  then show "getColor colors colorId = js_index colors 2"
    by (rule getColor_out)
next
  assume "1 \<le> colorId \<and> colorId < int (length colors)"
  then show "getColor colors colorId = colors ! nat colorId"
    by (simp add: getColor_in)
next
  assume a: "1 \<le> colorId \<and> colorId < int (length colorMap)"
  then have "getColor (setColorMap colorMap) colorId = setColorMap colorMap ! nat colorId"
    by (simp add: getColor_in length_setColorMap)
  also have "\<dots> = Some (rgbColor (colorMap ! nat colorId))"
  proof (rule setColorMap_nth)
    show "0 < nat colorId" using a by arith
    show "nat colorId < length colorMap" using a by arith
  qed
  finally show "getColor (setColorMap colorMap) colorId = Some (rgbColor (colorMap ! nat colorId))" .
next
  assume a: "(colorId < 1 \<or> int (length colorMap) \<le> colorId) \<and> 2 < length colorMap"
  then have "colorId < 1 \<or> int (length (setColorMap colorMap)) \<le> colorId"
    by (auto simp: length_setColorMap)
  then have "getColor (setColorMap colorMap) colorId = js_index (setColorMap colorMap) 2"
    by (rule getColor_out)
  with a show "getColor (setColorMap colorMap) colorId = Some (rgbColor (colorMap ! 2))"
    by (simp add: js_index_setColorMap_2)
qed

theorem getColor_clamps_to_background_witness:
  "((7::int) < 1 \<or> int (length (setColorMap [(0, 0, 0), (255, 255, 255), (30, 30, 30), (1, 2, 3)])) \<le> 7)
   \<and> getColor (setColorMap [(0, 0, 0), (255, 255, 255), (30, 30, 30), (1, 2, 3)]) 7
       = Some (new_ParsedColor 30 30 30)
   \<and> (1::int) \<le> 3 \<and> 3 < int (length (setColorMap [(0, 0, 0), (255, 255, 255), (30, 30, 30), (1, 2, 3)]))
   \<and> getColor (setColorMap [(0, 0, 0), (255, 255, 255), (30, 30, 30), (1, 2, 3)]) 3
       = Some (new_ParsedColor 1 2 3)"
proof -
  let ?cm = "[(0, 0, 0), (255, 255, 255), (30, 30, 30), (1, 2, 3)] :: (int \<times> int \<times> int) list"
  have len: "length (setColorMap ?cm) = 4"
    by (simp add: setColorMap_def)
  have out: "getColor (setColorMap ?cm) 7 = js_index (setColorMap ?cm) 2"
    using getColor_clamps_to_background [of 7 "setColorMap ?cm" ?cm] len by simp
  have inr: "getColor (setColorMap ?cm) 3 = setColorMap ?cm ! nat 3"
    using getColor_clamps_to_background [of 3 "setColorMap ?cm" ?cm] len by simp
  have v2: "js_index (setColorMap ?cm) 2 = Some (new_ParsedColor 30 30 30)"
    by (simp add: js_index_def setColorMap_def rgbColor_def)
  have v3: "setColorMap ?cm ! nat 3 = Some (new_ParsedColor 1 2 3)"
    by (simp add: setColorMap_def rgbColor_def)
  show ?thesis
    using out inr len v2 v3 by simp
qed



lemma parseHexDigit_nonhex: "\<not> isHexDigit c \<Longrightarrow> parseHexDigit (Some c) = 0"
  by (simp add: isHexDigit_def js_str_def parseHexDigit_def)

lemma parseHexDigit_total: "parseHexDigit (Some c) = hexValueOrZero c"
  by (simp add: hexValueOrZero_def parseHexDigit_hex parseHexDigit_nonhex)

text \<open>
  Claim C1 as stated fails: the normalized form \<open>12345g\<close> has 6 characters of which the
  last is no hexadecimal digit, and the result is not black.
\<close>

theorem parseColor_nonhex_counterexample:
  "length (spec_normalized (js_str ''12345g'')) = 6
   \<and> \<not> list_all isHexDigit (spec_normalized (js_str ''12345g''))
   \<and> parseColor (Some (js_str ''12345g'')) = new_ParsedColor 18 52 80
   \<and> parseColor (Some (js_str ''12345g'')) \<noteq> new_ParsedColor 0 0 0"
  by (simp add: spec_normalized_def js_str_def isHexDigit_def parseColor_def charCodeAt_def
      substr_def parseHexDigit_def new_ParsedColor_def new_parsed_color_def)

text \<open>
  Claim C1, amended. The result is black for a missing or empty string and for every
  string whose normalized form does not have exactly 6 characters. A normalized form of
  exactly 6 characters is always decoded, two characters for each channel, and a
  character that is no hexadecimal digit counts as the digit 0.
\<close>

theorem parseColor_black_unless_six_chars:
  "parseColor color =
     (case color of
        None \<Rightarrow> new_ParsedColor 0 0 0
      | Some s \<Rightarrow>
          let n = spec_normalized s in
          if length n \<noteq> 6 then new_ParsedColor 0 0 0
          else new_ParsedColor (16 * hexValueOrZero (n ! 0) + hexValueOrZero (n ! 1))
                 (16 * hexValueOrZero (n ! 2) + hexValueOrZero (n ! 3))
                 (16 * hexValueOrZero (n ! 4) + hexValueOrZero (n ! 5)))"
proof (cases color)
  case None
  then show ?thesis by (simp add: parseColor_def)
next
  case (Some s)
  show ?thesis
  proof (cases "s = []")
    case True
    with Some show ?thesis by (simp add: parseColor_def spec_normalized_def)
  next
    case False
    with Some show ?thesis
      by (simp add: parseColor_norm parseHexDigit_total Let_def)
  qed
qed

theorem parseColor_black_unless_six_chars_witness:
  "parseColor (Some (js_str ''#fff'')) = new_ParsedColor 0 0 0
   \<and> parseColor (Some (js_str ''#12345g7'')) = new_ParsedColor 18 52 80"
  by (simp add: parseColor_black_unless_six_chars spec_normalized_def js_str_def
      hexValueOrZero_def isHexDigit_def hexValue_def)



section \<open>Properties of the content provider\<close>



lemma set_set_add: "set (set_add xs u) = insert u (set xs)"
  by (auto simp: set_add_def)

lemma set_set_delete: "set (set_delete xs u) = set xs - {u}"
  by (auto simp: set_delete_def)










text \<open>
  Claim C2. When \<open>model.show\<close> resolves with a content, the call resolves with that
  content and the URI is in the set \<open>uris\<close> afterwards; when \<open>model.show\<close> rejects, the
  call resolves with the empty string, it does not reject, and the URI is not in the set
  afterwards.
\<close>

theorem provideTextDocumentContent_resolves:
  "(model_show uri = Resolved content \<longrightarrow>
      fst (provideTextDocumentContent model_show uri s) = Resolved content
      \<and> uri \<in> set (uris (snd (provideTextDocumentContent model_show uri s))))
   \<and> (model_show uri = Rejected err \<longrightarrow>
      fst (provideTextDocumentContent model_show uri s) = Resolved []
      \<and> uri \<notin> set (uris (snd (provideTextDocumentContent model_show uri s))))"
  by (simp add: provideTextDocumentContent_def set_set_add set_set_delete)

theorem provideTextDocumentContent_resolves_witness:
  "fst (provideTextDocumentContent (\<lambda>u. if u = (1::nat) then Resolved (js_str ''old'') else Rejected ''gone'')
          1 \<lparr>uris = [2], fired = []\<rparr>) = Resolved (js_str ''old'')
   \<and> 1 \<in> set (uris (snd (provideTextDocumentContent
          (\<lambda>u. if u = (1::nat) then Resolved (js_str ''old'') else Rejected ''gone'') 1 \<lparr>uris = [2], fired = []\<rparr>)))
   \<and> fst (provideTextDocumentContent (\<lambda>u. if u = (1::nat) then Resolved (js_str ''old'') else Rejected ''gone'')
          2 \<lparr>uris = [2], fired = []\<rparr>) = Resolved []
   \<and> 2 \<notin> set (uris (snd (provideTextDocumentContent
          (\<lambda>u. if u = (1::nat) then Resolved (js_str ''old'') else Rejected ''gone'') 2 \<lparr>uris = [2], fired = []\<rparr>)))"
proof -
  let ?m = "\<lambda>u. if u = (1::nat) then Resolved (js_str ''old'') else Rejected ''gone''"
  let ?s = "\<lparr>uris = [2::nat], fired = []\<rparr>"
  have m1: "?m 1 = Resolved (js_str ''old'')" by simp
  have m2: "?m 2 = Rejected ''gone''" by simp
  from provideTextDocumentContent_resolves [of ?m 1 "js_str ''old''" ?s "''gone''"] m1
  have a: "fst (provideTextDocumentContent ?m 1 ?s) = Resolved (js_str ''old'')
      \<and> 1 \<in> set (uris (snd (provideTextDocumentContent ?m 1 ?s)))"
    by blast
  from provideTextDocumentContent_resolves [of ?m 2 "js_str ''old''" ?s "''gone''"] m2
  have b: "fst (provideTextDocumentContent ?m 2 ?s) = Resolved []
      \<and> 2 \<notin> set (uris (snd (provideTextDocumentContent ?m 2 ?s)))"
    by blast
  from a b show ?thesis by blast
qed




section \<open>Properties of the renderer\<close>

lemma length_u8c_set: "length (u8c_set a st) = length a"
  by (cases st) (simp add: u8c_set_def)

lemma length_foldl_u8c_set: "length (foldl u8c_set a ws) = length a"
  by (induction ws arbitrary: a) (simp_all add: length_u8c_set)

lemma foldl_u8c_set_unwritten:
  "int n \<notin> fst ` set ws \<Longrightarrow> foldl u8c_set a ws ! n = a ! n"
proof (induction ws arbitrary: a)
  case Nil
  show ?case by simp
next
  case (Cons st ws)
  obtain i v where st: "st = (i, v)" by (cases st)
  from Cons.prems st have ne: "i \<noteq> int n" and rest: "int n \<notin> fst ` set ws"
    by auto
  have "foldl u8c_set a (st # ws) ! n = u8c_set a st ! n"
    using Cons.IH [OF rest] by simp
  also have "\<dots> = a ! n"
    using ne by (auto simp: st u8c_set_def)
  finally show ?case .
qed

lemma foldl_u8c_set_written:
  "distinct (map fst ws) \<Longrightarrow> (i, v) \<in> set ws \<Longrightarrow> 0 \<le> i \<Longrightarrow> i < int (length a)
   \<Longrightarrow> foldl u8c_set a ws ! nat i = toUint8Clamp v"
proof (induction ws arbitrary: a)
  case Nil
  then show ?case by simp
next
  case (Cons st ws)
  show ?case
  proof (cases "st = (i, v)")
    case True
    from Cons.prems(1) True have "int (nat i) \<notin> fst ` set ws"
      using Cons.prems(3) by auto
    then have "foldl u8c_set a (st # ws) ! nat i = u8c_set a st ! nat i"
      by (simp add: foldl_u8c_set_unwritten)
    also have "\<dots> = toUint8Clamp v"
      using Cons.prems(3,4) by (simp add: True u8c_set_def)
    finally show ?thesis .
  next
    case False
    with Cons.prems have mem: "(i, v) \<in> set ws" and d: "distinct (map fst ws)"
      by auto
    have "i < int (length (u8c_set a st))"
      using Cons.prems(4) by (simp add: length_u8c_set)
    from Cons.IH [OF d mem Cons.prems(3) this] show ?thesis
      by simp
  qed
qed

lemma distinct_x2_offsets:
  "2 \<le> width target \<Longrightarrow> distinct (map fst (x2_stores rnd target dx dy chCode color backgroundColor))"
  by (simp add: x2_stores_def Let_def)



lemma js_rem_nonneg: "0 \<le> a \<Longrightarrow> js_rem a 95 = a mod 95"
  by (cases "a = 0") (simp_all add: js_rem_def)

lemma getChIndex_mod: "0 \<le> chCode \<Longrightarrow> getChIndex chCode = (chCode - 32) mod 95"
proof (cases "chCode < 32")
  case True
  assume "0 \<le> chCode"
  with True have "getChIndex chCode = (chCode + 63) mod 95"
    by (simp add: getChIndex_def js_rem_nonneg)
  also have "chCode + 63 = (chCode - 32) + 95"
    by simp
  also have "((chCode - 32) + 95) mod 95 = (chCode - 32) mod 95"
    by (rule mod_add_self2)
  finally show ?thesis .
next
  case False
  then show ?thesis
    by (simp add: getChIndex_def js_rem_nonneg)
qed

lemma getChIndex_range: "0 \<le> chCode \<Longrightarrow> 0 \<le> getChIndex chCode \<and> getChIndex chCode < 95"
  by (simp add: getChIndex_mod)

lemma x2_values:
  "map snd (x2_stores rnd target dx dy chCode color backgroundColor) =
     concat (map (\<lambda>k.
        let c = div255 (u8c_get (if isLight backgroundColor then x2charDataLight rnd else x2charData rnd)
                  (getChIndex chCode * 8 + k))
        in [blend (r backgroundColor) (r color - r backgroundColor) c,
            blend (g backgroundColor) (g color - g backgroundColor) c,
            blend (b backgroundColor) (b color - b backgroundColor) c])
       [0, 1, 2, 3, 4, 5, 6, 7])"
  unfolding x2_stores_def Let_def
  by (simp only: list.map concat.simps append.simps snd_conv mult.assoc mult_numeral_left_semiring_numeral
      add_0_right num.simps arith_simps)


lemma x1_values:
  "map snd (x1_stores rnd target dx dy chCode color backgroundColor) =
     concat (map (\<lambda>k.
        let c = div255 (u8c_get (if isLight backgroundColor then x1charDataLight rnd else x1charData rnd)
                  (getChIndex chCode * 2 + k))
        in [blend (r backgroundColor) (r color - r backgroundColor) c,
            blend (g backgroundColor) (g color - g backgroundColor) c,
            blend (b backgroundColor) (b color - b backgroundColor) c])
       [0, 1])"
  unfolding x1_stores_def Let_def
  by (simp only: list.map concat.simps append.simps snd_conv mult.assoc mult_numeral_left_semiring_numeral
      add_0_right num.simps arith_simps mult_1_right)

lemma renderer_lengths:
  "new_MinimapCharRenderer x2CharData x1CharData = Inr rnd \<Longrightarrow>
     length (x2charData rnd) = 760 \<and> length (x2charDataLight rnd) = 760
     \<and> length (x1charData rnd) = 190 \<and> length (x1charDataLight rnd) = 190"
  by (auto simp: new_MinimapCharRenderer_def soften_def Let_def split: if_splits)

lemma blend_sample:
  "0 \<le> i \<Longrightarrow> i < int (length atlas) \<Longrightarrow>
   blend bg (fg - bg) (div255 (u8c_get atlas i)) = Some (spec_interpolate bg fg (atlas ! nat i))"
  by (simp add: blend_def div255_def u8c_get_def spec_interpolate_def)

lemma pixel_offset_bounds:
  assumes "0 \<le> x" "x < int (width target)" "0 \<le> y" "y < int (height target)"
  shows "0 \<le> pixel_offset target x y"
    and "pixel_offset target x y + 3 < 4 * (int (width target) * int (height target))"
proof -
  let ?W = "int (width target)" and ?H = "int (height target)"
  have "0 \<le> y * ?W" using assms by simp
  then show "0 \<le> pixel_offset target x y"
    using assms by (simp add: pixel_offset_def)
  have "y + 1 \<le> ?H" using assms by simp
  then have "(y + 1) * ?W \<le> ?H * ?W"
    by (rule mult_right_mono) simp
  then have "y * ?W + x + 1 \<le> ?W * ?H"
    using assms by (simp add: algebra_simps)
  then show "pixel_offset target x y + 3 < 4 * (?W * ?H)"
    by (simp add: pixel_offset_def)
qed

lemma x2_store_member:
  "j \<in> {0, 1, 2, 3} \<Longrightarrow> i \<in> {0, 1} \<Longrightarrow> k \<in> {0, 1, 2} \<Longrightarrow>
   (pixel_offset target (dx + i) (dy + j) + k,
    blend (channel k backgroundColor) (channel k color - channel k backgroundColor)
      (div255 (u8c_get (if isLight backgroundColor then x2charDataLight rnd else x2charData rnd)
         (getChIndex chCode * 8 + 2 * j + i))))
   \<in> set (x2_stores rnd target dx dy chCode color backgroundColor)"
  unfolding x2_stores_def Let_def pixel_offset_def channel_def
  by (elim insertE emptyE) (simp_all add: algebra_simps)

lemma distinct_x1_offsets:
  "1 \<le> width target \<Longrightarrow> distinct (map fst (x1_stores rnd target dx dy chCode color backgroundColor))"
  by (simp add: x1_stores_def Let_def)

lemma x1_store_member:
  "j \<in> {0, 1} \<Longrightarrow> k \<in> {0, 1, 2} \<Longrightarrow>
   (pixel_offset target dx (dy + j) + k,
    blend (channel k backgroundColor) (channel k color - channel k backgroundColor)
      (div255 (u8c_get (if isLight backgroundColor then x1charDataLight rnd else x1charData rnd)
         (getChIndex chCode * 2 + j))))
   \<in> set (x1_stores rnd target dx dy chCode color backgroundColor)"
  unfolding x1_stores_def Let_def pixel_offset_def channel_def
  by (elim insertE emptyE) (simp_all add: algebra_simps)

lemma x2_sample_written:
  assumes rnd: "new_MinimapCharRenderer x2CharData x1CharData = Inr rnd"
    and ch: "0 \<le> chCode"
    and inb: "0 \<le> dx" "0 \<le> dy" "dx + 2 \<le> int (width target)" "dy + 4 \<le> int (height target)"
    and len: "length (data target) = 4 * width target * height target"
    and ijk: "j \<in> {0, 1, 2, 3}" "i \<in> {0, 1}" "k \<in> {0, 1, 2}"
  shows "data (snd (x2RenderChar rnd target dx dy chCode color backgroundColor))
           ! nat (pixel_offset target (dx + i) (dy + j) + k)
         = toUint8Clamp (Some (spec_interpolate (channel k backgroundColor) (channel k color)
             ((if isLight backgroundColor then x2charDataLight rnd else x2charData rnd)
                ! nat (getChIndex chCode * 8 + 2 * j + i))))"
proof -
  let ?atlas = "if isLight backgroundColor then x2charDataLight rnd else x2charData rnd"
  let ?src = "getChIndex chCode * 8 + 2 * j + i"
  let ?off = "pixel_offset target (dx + i) (dy + j) + k"
  let ?ws = "x2_stores rnd target dx dy chCode color backgroundColor"
  have alen: "length ?atlas = 760"
    using renderer_lengths [OF rnd] by simp
  have jr: "0 \<le> j \<and> j \<le> 3" and ir: "0 \<le> i \<and> i \<le> 1" and kr: "0 \<le> k \<and> k \<le> 2"
    using ijk by auto
  have src: "0 \<le> ?src \<and> ?src < int (length ?atlas)"
    using getChIndex_range [OF ch] jr ir unfolding alen by simp
  have val: "blend (channel k backgroundColor) (channel k color - channel k backgroundColor)
               (div255 (u8c_get ?atlas ?src))
             = Some (spec_interpolate (channel k backgroundColor) (channel k color) (?atlas ! nat ?src))"
    using src by (intro blend_sample) simp_all
  have mem: "(?off, Some (spec_interpolate (channel k backgroundColor) (channel k color) (?atlas ! nat ?src)))
               \<in> set ?ws"
    using x2_store_member [OF ijk, of target dx dy backgroundColor color rnd chCode]
    unfolding val .
  have w: "2 \<le> width target"
    using inb by simp
  have px: "0 \<le> pixel_offset target (dx + i) (dy + j)"
    and py: "pixel_offset target (dx + i) (dy + j) + 3
               < 4 * (int (width target) * int (height target))"
    using inb jr ir by (intro pixel_offset_bounds; simp)+
  have lo: "0 \<le> ?off" using px kr by simp
  have hi: "?off < int (length (data target))"
    using py kr by (simp add: len)
  have "foldl u8c_set (data target) ?ws ! nat ?off
          = toUint8Clamp (Some (spec_interpolate (channel k backgroundColor) (channel k color)
              (?atlas ! nat ?src)))"
    using distinct_x2_offsets [OF w] mem lo hi by (rule foldl_u8c_set_written)
  moreover have "data (snd (x2RenderChar rnd target dx dy chCode color backgroundColor))
                   = foldl u8c_set (data target) ?ws"
    using inb by (simp add: x2RenderChar_def)
  ultimately show ?thesis by simp
qed

lemma x2_offsets_set:
  "fst ` set (x2_stores rnd target dx dy chCode color backgroundColor) =
     (\<lambda>(j, i, k). pixel_offset target (dx + i) (dy + j) + k) ` ({0, 1, 2, 3} \<times> {0, 1} \<times> {0, 1, 2})"
  unfolding x2_stores_def Let_def pixel_offset_def
  by (auto simp: algebra_simps)

lemma x1_offsets_set:
  "fst ` set (x1_stores rnd target dx dy chCode color backgroundColor) =
     (\<lambda>(j, k). pixel_offset target dx (dy + j) + k) ` ({0, 1} \<times> {0, 1, 2})"
  unfolding x1_stores_def Let_def pixel_offset_def
  by (auto simp: algebra_simps)

lemma pixel_offset_not_alpha: "k \<in> {0, 1, 2} \<Longrightarrow> (pixel_offset target x y + k) mod 4 \<noteq> 3"
proof -
  assume k: "k \<in> {0, 1, 2}"
  have "(pixel_offset target x y + k) mod 4 = k mod 4"
    unfolding pixel_offset_def by (rule mod_mult_self3)
  with k show ?thesis by auto
qed

lemma x2_alpha_unwritten:
  "n mod 4 = 3 \<Longrightarrow>
   data (snd (x2RenderChar rnd target dx dy chCode color backgroundColor)) ! n = data target ! n"
proof -
  assume n: "n mod 4 = 3"
  then have n': "int n mod 4 = 3"
    by presburger
  have "int n \<notin> fst ` set (x2_stores rnd target dx dy chCode color backgroundColor)"
  proof
    assume "int n \<in> fst ` set (x2_stores rnd target dx dy chCode color backgroundColor)"
    then have "\<exists>j i k. k \<in> {0, 1, 2} \<and> int n = pixel_offset target (dx + i) (dy + j) + k"
      unfolding x2_offsets_set by (elim imageE SigmaE) (simp only: prod.case, blast)
    then obtain j i k where "k \<in> {0, 1, 2}" "int n = pixel_offset target (dx + i) (dy + j) + k"
      by blast
    with pixel_offset_not_alpha [of k target "dx + i" "dy + j"] n' show False
      by simp
  qed
  then show ?thesis
    by (simp add: x2RenderChar_def foldl_u8c_set_unwritten)
qed

lemma x1_alpha_unwritten:
  "n mod 4 = 3 \<Longrightarrow>
   data (snd (x1RenderChar rnd target dx dy chCode color backgroundColor)) ! n = data target ! n"
proof -
  assume n: "n mod 4 = 3"
  then have n': "int n mod 4 = 3"
    by presburger
  have "int n \<notin> fst ` set (x1_stores rnd target dx dy chCode color backgroundColor)"
  proof
    assume "int n \<in> fst ` set (x1_stores rnd target dx dy chCode color backgroundColor)"
    then have "\<exists>j k. k \<in> {0, 1, 2} \<and> int n = pixel_offset target dx (dy + j) + k"
      unfolding x1_offsets_set by (elim imageE SigmaE) (simp only: prod.case, blast)
    then obtain j k where "k \<in> {0, 1, 2}" "int n = pixel_offset target dx (dy + j) + k"
      by blast
    with pixel_offset_not_alpha [of k target dx "dy + j"] n' show False
      by simp
  qed
  then show ?thesis
    by (simp add: x1RenderChar_def foldl_u8c_set_unwritten)
qed


lemma x1_sample_written:
  assumes rnd: "new_MinimapCharRenderer x2CharData x1CharData = Inr rnd"
    and ch: "0 \<le> chCode"
    and inb: "0 \<le> dx" "0 \<le> dy" "dx + 1 \<le> int (width target)" "dy + 2 \<le> int (height target)"
    and len: "length (data target) = 4 * width target * height target"
    and jk: "j \<in> {0, 1}" "k \<in> {0, 1, 2}"
  shows "data (snd (x1RenderChar rnd target dx dy chCode color backgroundColor))
           ! nat (pixel_offset target dx (dy + j) + k)
         = toUint8Clamp (Some (spec_interpolate (channel k backgroundColor) (channel k color)
             ((if isLight backgroundColor then x1charDataLight rnd else x1charData rnd)
                ! nat (getChIndex chCode * 2 + j))))"
proof -
  let ?atlas = "if isLight backgroundColor then x1charDataLight rnd else x1charData rnd"
  let ?src = "getChIndex chCode * 2 + j"
  let ?off = "pixel_offset target dx (dy + j) + k"
  let ?ws = "x1_stores rnd target dx dy chCode color backgroundColor"
  have alen: "length ?atlas = 190"
    using renderer_lengths [OF rnd] by simp
  have jr: "0 \<le> j \<and> j \<le> 1" and kr: "0 \<le> k \<and> k \<le> 2"
    using jk by auto
  have src: "0 \<le> ?src \<and> ?src < int (length ?atlas)"
    using getChIndex_range [OF ch] jr unfolding alen by simp
  have val: "blend (channel k backgroundColor) (channel k color - channel k backgroundColor)
               (div255 (u8c_get ?atlas ?src))
             = Some (spec_interpolate (channel k backgroundColor) (channel k color) (?atlas ! nat ?src))"
    using src by (intro blend_sample) simp_all
  have mem: "(?off, Some (spec_interpolate (channel k backgroundColor) (channel k color) (?atlas ! nat ?src)))
               \<in> set ?ws"
    using x1_store_member [OF jk, of target dx dy backgroundColor color rnd chCode]
    unfolding val .
  have w: "1 \<le> width target"
    using inb by simp
  have px: "0 \<le> pixel_offset target dx (dy + j)"
    and py: "pixel_offset target dx (dy + j) + 3
               < 4 * (int (width target) * int (height target))"
    using inb jr by (intro pixel_offset_bounds; simp)+
  have lo: "0 \<le> ?off" using px kr by simp
  have hi: "?off < int (length (data target))"
    using py kr by (simp add: len)
  have "foldl u8c_set (data target) ?ws ! nat ?off
          = toUint8Clamp (Some (spec_interpolate (channel k backgroundColor) (channel k color)
              (?atlas ! nat ?src)))"
    using distinct_x1_offsets [OF w] mem lo hi by (rule foldl_u8c_set_written)
  moreover have "data (snd (x1RenderChar rnd target dx dy chCode color backgroundColor))
                   = foldl u8c_set (data target) ?ws"
    using inb by (simp add: x1RenderChar_def)
  ultimately show ?thesis by simp
qed

lemma renderer_light:
  "new_MinimapCharRenderer x2CharData x1CharData = Inr rnd \<Longrightarrow>
     x2charData rnd = x2CharData \<and> x1charData rnd = x1CharData
     \<and> x2charDataLight rnd = soften x2CharData (12 / 15)
     \<and> x1charDataLight rnd = soften x1CharData (50 / 60)"
  by (auto simp: new_MinimapCharRenderer_def Let_def split: if_splits)

lemma toUint8Clamp_nearest:
  assumes lo: "of_int n - 1 / 2 < x" and hi: "x < of_int n + 1 / 2"
    and n0: "0 \<le> n" and n255: "n \<le> 255"
  shows "toUint8Clamp (Some x) = word_of_int n"
proof -
  consider (zero) "x \<le> 0" | (top) "255 \<le> x" | (up) "0 < x" "x < 255" "of_int n \<le> x"
    | (down) "0 < x" "x < 255" "x < of_int n"
    by linarith
  then show ?thesis
  proof cases
    case zero
    with lo have "(of_int n :: rat) < of_int 1" by simp
    then have "n < 1" by (simp only: of_int_less_iff)
    with n0 have "n = 0" by simp
    with zero show ?thesis by (simp add: toUint8Clamp_def)
  next
    case top
    with hi have "(of_int 254 :: rat) < of_int n" by simp
    then have "254 < n" by (simp only: of_int_less_iff)
    with n255 have "n = 255" by simp
    with top show ?thesis by (simp add: toUint8Clamp_def)
  next
    case up
    have f: "\<lfloor>x\<rfloor> = n"
      using up(3) hi by (intro floor_unique) simp_all
    from up hi show ?thesis
      by (simp add: toUint8Clamp_def f Let_def)
  next
    case down
    have f: "\<lfloor>x\<rfloor> = n - 1"
      using down(3) lo by (intro floor_unique) simp_all
    from down lo show ?thesis
      by (simp add: toUint8Clamp_def f Let_def)
  qed
qed

lemma x2RenderChar_same_glyph:
  assumes e: "getChIndex c = getChIndex c'"
  shows "x2RenderChar rnd target dx dy c color backgroundColor
     = x2RenderChar rnd target dx dy c' color backgroundColor"
  unfolding x2RenderChar_def x2_stores_def e ..

lemma x1RenderChar_same_glyph:
  assumes e: "getChIndex c = getChIndex c'"
  shows "x1RenderChar rnd target dx dy c color backgroundColor
     = x1RenderChar rnd target dx dy c' color backgroundColor"
  unfolding x1RenderChar_def x1_stores_def e ..

text \<open>
  Claim C6. For every character code that is not negative, \<open>getChIndex\<close> is the code
  minus 32 modulo 95; the code 31 gives the last index 94 and the code 127 gives the first
  index 0, so 31 is rendered as 126 is and 127 as 32 is. \<open>x2RenderChar\<close> and
  \<open>x1RenderChar\<close> read the atlas at that index: the bytes they leave in the target for
  a character that fits are blended from the 8 samples at 8 times the index, and from the
  2 samples at 2 times the index.
\<close>

theorem getChIndex_wraps_modulo_count:
  "(0 \<le> chCode \<longrightarrow>
      getChIndex chCode = (chCode - 32) mod 95
      \<and> map snd (x2_stores rnd target dx dy chCode color backgroundColor) =
          concat (map (\<lambda>k.
            let c = div255 (u8c_get (if isLight backgroundColor then x2charDataLight rnd else x2charData rnd)
                      ((chCode - 32) mod 95 * 8 + k))
            in [blend (r backgroundColor) (r color - r backgroundColor) c,
                blend (g backgroundColor) (g color - g backgroundColor) c,
                blend (b backgroundColor) (b color - b backgroundColor) c])
           [0, 1, 2, 3, 4, 5, 6, 7])
      \<and> map snd (x1_stores rnd target dx dy chCode color backgroundColor) =
          concat (map (\<lambda>k.
            let c = div255 (u8c_get (if isLight backgroundColor then x1charDataLight rnd else x1charData rnd)
                      ((chCode - 32) mod 95 * 2 + k))
            in [blend (r backgroundColor) (r color - r backgroundColor) c,
                blend (g backgroundColor) (g color - g backgroundColor) c,
                blend (b backgroundColor) (b color - b backgroundColor) c])
           [0, 1])
      \<and> (new_MinimapCharRenderer x2CharData x1CharData = Inr rnd \<and> 0 \<le> dx \<and> 0 \<le> dy
           \<and> length (data target) = 4 * width target * height target \<longrightarrow>
          (dx + 2 \<le> int (width target) \<and> dy + 4 \<le> int (height target) \<longrightarrow>
             (\<forall>j \<in> {0, 1, 2, 3}. \<forall>i \<in> {0, 1}. \<forall>k \<in> {0, 1, 2}.
                data (snd (x2RenderChar rnd target dx dy chCode color backgroundColor))
                  ! nat (pixel_offset target (dx + i) (dy + j) + k)
                = toUint8Clamp (Some (spec_interpolate (channel k backgroundColor) (channel k color)
                    ((if isLight backgroundColor then x2charDataLight rnd else x2charData rnd)
                       ! nat ((chCode - 32) mod 95 * 8 + 2 * j + i))))))
          \<and> (dx + 1 \<le> int (width target) \<and> dy + 2 \<le> int (height target) \<longrightarrow>
             (\<forall>j \<in> {0, 1}. \<forall>k \<in> {0, 1, 2}.
                data (snd (x1RenderChar rnd target dx dy chCode color backgroundColor))
                  ! nat (pixel_offset target dx (dy + j) + k)
                = toUint8Clamp (Some (spec_interpolate (channel k backgroundColor) (channel k color)
                    ((if isLight backgroundColor then x1charDataLight rnd else x1charData rnd)
                       ! nat ((chCode - 32) mod 95 * 2 + j))))))))
   \<and> getChIndex 31 = 94 \<and> getChIndex 127 = 0
   \<and> x2RenderChar rnd target dx dy 31 color backgroundColor
       = x2RenderChar rnd target dx dy 126 color backgroundColor
   \<and> x2RenderChar rnd target dx dy 127 color backgroundColor
       = x2RenderChar rnd target dx dy 32 color backgroundColor
   \<and> x1RenderChar rnd target dx dy 31 color backgroundColor
       = x1RenderChar rnd target dx dy 126 color backgroundColor
   \<and> x1RenderChar rnd target dx dy 127 color backgroundColor
       = x1RenderChar rnd target dx dy 32 color backgroundColor"
proof (intro conjI impI ballI)
  assume nn: "0 \<le> chCode"
  then show "getChIndex chCode = (chCode - 32) mod 95"
    by (rule getChIndex_mod)
  show "map snd (x2_stores rnd target dx dy chCode color backgroundColor) =
          concat (map (\<lambda>k.
            let c = div255 (u8c_get (if isLight backgroundColor then x2charDataLight rnd else x2charData rnd)
                      ((chCode - 32) mod 95 * 8 + k))
            in [blend (r backgroundColor) (r color - r backgroundColor) c,
                blend (g backgroundColor) (g color - g backgroundColor) c,
                blend (b backgroundColor) (b color - b backgroundColor) c])
           [0, 1, 2, 3, 4, 5, 6, 7])"
    unfolding x2_values getChIndex_mod [OF nn] ..
  show "map snd (x1_stores rnd target dx dy chCode color backgroundColor) =
          concat (map (\<lambda>k.
            let c = div255 (u8c_get (if isLight backgroundColor then x1charDataLight rnd else x1charData rnd)
                      ((chCode - 32) mod 95 * 2 + k))
            in [blend (r backgroundColor) (r color - r backgroundColor) c,
                blend (g backgroundColor) (g color - g backgroundColor) c,
                blend (b backgroundColor) (b color - b backgroundColor) c])
           [0, 1])"
    unfolding x1_values getChIndex_mod [OF nn] ..
next
  fix j i k :: int
  assume nn: "0 \<le> chCode"
    and pre: "new_MinimapCharRenderer x2CharData x1CharData = Inr rnd \<and> 0 \<le> dx \<and> 0 \<le> dy
           \<and> length (data target) = 4 * width target * height target"
    and fit: "dx + 2 \<le> int (width target) \<and> dy + 4 \<le> int (height target)"
    and ijk: "j \<in> {0, 1, 2, 3}" "i \<in> {0, 1}" "k \<in> {0, 1, 2}"
  have "data (snd (x2RenderChar rnd target dx dy chCode color backgroundColor))
          ! nat (pixel_offset target (dx + i) (dy + j) + k)
        = toUint8Clamp (Some (spec_interpolate (channel k backgroundColor) (channel k color)
            ((if isLight backgroundColor then x2charDataLight rnd else x2charData rnd)
               ! nat (getChIndex chCode * 8 + 2 * j + i))))"
    by (rule x2_sample_written [OF pre [THEN conjunct1] nn
          pre [THEN conjunct2, THEN conjunct1] pre [THEN conjunct2, THEN conjunct2, THEN conjunct1]
          fit [THEN conjunct1] fit [THEN conjunct2]
          pre [THEN conjunct2, THEN conjunct2, THEN conjunct2] ijk])
  then show "data (snd (x2RenderChar rnd target dx dy chCode color backgroundColor))
          ! nat (pixel_offset target (dx + i) (dy + j) + k)
        = toUint8Clamp (Some (spec_interpolate (channel k backgroundColor) (channel k color)
            ((if isLight backgroundColor then x2charDataLight rnd else x2charData rnd)
               ! nat ((chCode - 32) mod 95 * 8 + 2 * j + i))))"
    unfolding getChIndex_mod [OF nn] .
next
  fix j k :: int
  assume nn: "0 \<le> chCode"
    and pre: "new_MinimapCharRenderer x2CharData x1CharData = Inr rnd \<and> 0 \<le> dx \<and> 0 \<le> dy
           \<and> length (data target) = 4 * width target * height target"
    and fit: "dx + 1 \<le> int (width target) \<and> dy + 2 \<le> int (height target)"
    and jk: "j \<in> {0, 1}" "k \<in> {0, 1, 2}"
  have "data (snd (x1RenderChar rnd target dx dy chCode color backgroundColor))
          ! nat (pixel_offset target dx (dy + j) + k)
        = toUint8Clamp (Some (spec_interpolate (channel k backgroundColor) (channel k color)
            ((if isLight backgroundColor then x1charDataLight rnd else x1charData rnd)
               ! nat (getChIndex chCode * 2 + j))))"
    by (rule x1_sample_written [OF pre [THEN conjunct1] nn
          pre [THEN conjunct2, THEN conjunct1] pre [THEN conjunct2, THEN conjunct2, THEN conjunct1]
          fit [THEN conjunct1] fit [THEN conjunct2]
          pre [THEN conjunct2, THEN conjunct2, THEN conjunct2] jk])
  then show "data (snd (x1RenderChar rnd target dx dy chCode color backgroundColor))
          ! nat (pixel_offset target dx (dy + j) + k)
        = toUint8Clamp (Some (spec_interpolate (channel k backgroundColor) (channel k color)
            ((if isLight backgroundColor then x1charDataLight rnd else x1charData rnd)
               ! nat ((chCode - 32) mod 95 * 2 + j))))"
    unfolding getChIndex_mod [OF nn] .
next
  show "getChIndex 31 = 94"
    by (simp add: getChIndex_mod)
  show "getChIndex 127 = 0"
    by (simp add: getChIndex_mod)
  have last: "getChIndex 31 = getChIndex 126"
    by (simp add: getChIndex_mod)
  have first: "getChIndex 127 = getChIndex 32"
    by (simp add: getChIndex_mod)
  show "x2RenderChar rnd target dx dy 31 color backgroundColor
       = x2RenderChar rnd target dx dy 126 color backgroundColor"
    using last by (rule x2RenderChar_same_glyph)
  show "x2RenderChar rnd target dx dy 127 color backgroundColor
       = x2RenderChar rnd target dx dy 32 color backgroundColor"
    using first by (rule x2RenderChar_same_glyph)
  show "x1RenderChar rnd target dx dy 31 color backgroundColor
       = x1RenderChar rnd target dx dy 126 color backgroundColor"
    using last by (rule x1RenderChar_same_glyph)
  show "x1RenderChar rnd target dx dy 127 color backgroundColor
       = x1RenderChar rnd target dx dy 32 color backgroundColor"
    using first by (rule x1RenderChar_same_glyph)
qed


theorem getChIndex_wraps_modulo_count_witness:
  "(0::int) \<le> 31
   \<and> new_MinimapCharRenderer (replicate 752 0 @ [10, 20, 30, 40, 50, 60, 70, 80])
         (replicate 188 0 @ [51, 102])
       = Inr \<lparr>x2charData = replicate 752 0 @ [10, 20, 30, 40, 50, 60, 70, 80],
              x1charData = replicate 188 0 @ [51, 102],
              x2charDataLight = soften (replicate 752 0 @ [10, 20, 30, 40, 50, 60, 70, 80]) (12 / 15),
              x1charDataLight = soften (replicate 188 0 @ [51, 102]) (50 / 60)\<rparr>
   \<and> getChIndex 31 = 94
   \<and> data (snd (x2RenderChar
        \<lparr>x2charData = replicate 752 0 @ [10, 20, 30, 40, 50, 60, 70, 80],
          x1charData = replicate 188 0 @ [51, 102],
          x2charDataLight = soften (replicate 752 0 @ [10, 20, 30, 40, 50, 60, 70, 80]) (12 / 15),
          x1charDataLight = soften (replicate 188 0 @ [51, 102]) (50 / 60)\<rparr>
        \<lparr>width = 2, height = 4, data = replicate 32 7\<rparr> 0 0 31
        (new_ParsedColor 255 255 255) (new_ParsedColor 0 0 0))) ! 28 = 80
   \<and> data (snd (x1RenderChar
        \<lparr>x2charData = replicate 752 0 @ [10, 20, 30, 40, 50, 60, 70, 80],
          x1charData = replicate 188 0 @ [51, 102],
          x2charDataLight = soften (replicate 752 0 @ [10, 20, 30, 40, 50, 60, 70, 80]) (12 / 15),
          x1charDataLight = soften (replicate 188 0 @ [51, 102]) (50 / 60)\<rparr>
        \<lparr>width = 2, height = 4, data = replicate 32 7\<rparr> 0 0 31
        (new_ParsedColor 255 255 255) (new_ParsedColor 0 0 0))) ! 8 = 102
   \<and> (0::int) \<le> 127
   \<and> getChIndex 127 = 0
   \<and> data (snd (x2RenderChar
        \<lparr>x2charData = replicate 752 0 @ [10, 20, 30, 40, 50, 60, 70, 80],
          x1charData = replicate 188 0 @ [51, 102],
          x2charDataLight = soften (replicate 752 0 @ [10, 20, 30, 40, 50, 60, 70, 80]) (12 / 15),
          x1charDataLight = soften (replicate 188 0 @ [51, 102]) (50 / 60)\<rparr>
        \<lparr>width = 2, height = 4, data = replicate 32 7\<rparr> 0 0 127
        (new_ParsedColor 255 255 255) (new_ParsedColor 0 0 0))) ! 28 = 0
   \<and> data \<lparr>width = 2, height = 4, data = replicate 32 7\<rparr> ! 28 = 7"
proof -
  let ?a2 = "replicate 752 0 @ [10, 20, 30, 40, 50, 60, 70, 80] :: u8c_array"
  let ?a1 = "replicate 188 0 @ [51, 102] :: u8c_array"
  let ?rnd = "\<lparr>x2charData = ?a2, x1charData = ?a1,
          x2charDataLight = soften ?a2 (12 / 15), x1charDataLight = soften ?a1 (50 / 60)\<rparr>"
  let ?t = "\<lparr>width = 2, height = 4, data = replicate 32 7\<rparr>"
  let ?fg = "new_ParsedColor 255 255 255"
  let ?bg = "new_ParsedColor 0 0 0"
  have n31: "(0::int) \<le> 31" and n127: "(0::int) \<le> 127" by simp_all
  have rnd: "new_MinimapCharRenderer ?a2 ?a1 = Inr ?rnd"
    by (simp add: new_MinimapCharRenderer_def)
  have pre: "new_MinimapCharRenderer ?a2 ?a1 = Inr ?rnd \<and> (0::int) \<le> 0 \<and> (0::int) \<le> 0
      \<and> length (data ?t) = 4 * width ?t * height ?t"
    using rnd by simp
  have fit2: "0 + 2 \<le> int (width ?t) \<and> 0 + 4 \<le> int (height ?t)" by simp
  have fit1: "0 + 1 \<le> int (width ?t) \<and> 0 + 2 \<le> int (height ?t)" by simp
  note t31 = getChIndex_wraps_modulo_count
    [where chCode = 31 and rnd = ?rnd and target = ?t and dx = 0 and dy = 0
       and color = ?fg and backgroundColor = ?bg and ?x2CharData = ?a2 and ?x1CharData = ?a1]
  note t127 = getChIndex_wraps_modulo_count
    [where chCode = 127 and rnd = ?rnd and target = ?t and dx = 0 and dy = 0
       and color = ?fg and backgroundColor = ?bg and ?x2CharData = ?a2 and ?x1CharData = ?a1]
  note r31 = t31 [THEN conjunct1, THEN mp, OF n31, THEN conjunct2, THEN conjunct2, THEN conjunct2,
      THEN mp, OF pre]
  note r127 = t127 [THEN conjunct1, THEN mp, OF n127, THEN conjunct2, THEN conjunct2, THEN conjunct2,
      THEN mp, OF pre]
  have i31: "getChIndex 31 = 94"
    using t31 [THEN conjunct1, THEN mp, OF n31, THEN conjunct1] by simp
  have i127: "getChIndex 127 = 0"
    using t127 [THEN conjunct1, THEN mp, OF n127, THEN conjunct1] by simp
  have "data (snd (x2RenderChar ?rnd ?t 0 0 31 ?fg ?bg)) ! nat (pixel_offset ?t (0 + 1) (0 + 3) + 0)
      = toUint8Clamp (Some (spec_interpolate (channel 0 ?bg) (channel 0 ?fg)
          ((if isLight ?bg then x2charDataLight ?rnd else x2charData ?rnd)
             ! nat ((31 - 32) mod 95 * 8 + 2 * 3 + 1))))"
    using r31 [THEN conjunct1, THEN mp, OF fit2] by simp
  also have "nat (pixel_offset ?t (0 + 1) (0 + 3) + 0) = 28"
    by (simp add: pixel_offset_def)
  also have "toUint8Clamp (Some (spec_interpolate (channel 0 ?bg) (channel 0 ?fg)
          ((if isLight ?bg then x2charDataLight ?rnd else x2charData ?rnd)
             ! nat ((31 - 32) mod 95 * 8 + 2 * 3 + 1)))) = 80"
    by (simp add: new_ParsedColor_def new_parsed_color_def channel_def spec_interpolate_def
        nth_append toUint8Clamp_nearest [of 80])
  finally have a: "data (snd (x2RenderChar ?rnd ?t 0 0 31 ?fg ?bg)) ! 28 = 80" .
  have "data (snd (x1RenderChar ?rnd ?t 0 0 31 ?fg ?bg)) ! nat (pixel_offset ?t 0 (0 + 1) + 0)
      = toUint8Clamp (Some (spec_interpolate (channel 0 ?bg) (channel 0 ?fg)
          ((if isLight ?bg then x1charDataLight ?rnd else x1charData ?rnd)
             ! nat ((31 - 32) mod 95 * 2 + 1))))"
    using r31 [THEN conjunct2, THEN mp, OF fit1] by simp
  also have "nat (pixel_offset ?t 0 (0 + 1) + 0) = 8"
    by (simp add: pixel_offset_def)
  also have "toUint8Clamp (Some (spec_interpolate (channel 0 ?bg) (channel 0 ?fg)
          ((if isLight ?bg then x1charDataLight ?rnd else x1charData ?rnd)
             ! nat ((31 - 32) mod 95 * 2 + 1)))) = 102"
    by (simp add: new_ParsedColor_def new_parsed_color_def channel_def spec_interpolate_def
        nth_append toUint8Clamp_nearest [of 102])
  finally have b: "data (snd (x1RenderChar ?rnd ?t 0 0 31 ?fg ?bg)) ! 8 = 102" .
  have "data (snd (x2RenderChar ?rnd ?t 0 0 127 ?fg ?bg)) ! nat (pixel_offset ?t (0 + 1) (0 + 3) + 0)
      = toUint8Clamp (Some (spec_interpolate (channel 0 ?bg) (channel 0 ?fg)
          ((if isLight ?bg then x2charDataLight ?rnd else x2charData ?rnd)
             ! nat ((127 - 32) mod 95 * 8 + 2 * 3 + 1))))"
    using r127 [THEN conjunct1, THEN mp, OF fit2] by simp
  also have "nat (pixel_offset ?t (0 + 1) (0 + 3) + 0) = 28"
    by (simp add: pixel_offset_def)
  also have "toUint8Clamp (Some (spec_interpolate (channel 0 ?bg) (channel 0 ?fg)
          ((if isLight ?bg then x2charDataLight ?rnd else x2charData ?rnd)
             ! nat ((127 - 32) mod 95 * 8 + 2 * 3 + 1)))) = 0"
    by (simp add: new_ParsedColor_def new_parsed_color_def channel_def spec_interpolate_def
        nth_append toUint8Clamp_def)
  finally have c: "data (snd (x2RenderChar ?rnd ?t 0 0 127 ?fg ?bg)) ! 28 = 0" .
  have d: "data ?t ! 28 = 7" by simp
  from n31 rnd i31 a b n127 i127 c d show ?thesis
    by (intro conjI)
qed

text \<open>
  Claim C7. When \<open>dx\<close> plus the width of a character exceeds the width of the target,
  or \<open>dy\<close> plus the height of a character exceeds its height, \<open>x2RenderChar\<close> and
  \<open>x1RenderChar\<close> warn and return the target as it was: no store is made, and no branch
  of the functions throws.
\<close>

theorem render_outside_target_is_noop:
  "(int (width target) < dx + 2 \<or> int (height target) < dy + 4 \<longrightarrow>
      x2RenderChar rnd target dx dy chCode color backgroundColor
        = ([''bad render request outside image data''], target))
   \<and> (int (width target) < dx + 1 \<or> int (height target) < dy + 2 \<longrightarrow>
      x1RenderChar rnd target dx dy chCode color backgroundColor
        = ([''bad render request outside image data''], target))"
  by (simp add: x2RenderChar_def x1RenderChar_def)

theorem render_outside_target_is_noop_witness:
  "int (width \<lparr>width = 4, height = 4, data = replicate 64 9\<rparr>) < 3 + 2
   \<and> x2RenderChar
        \<lparr>x2charData = replicate 760 255, x1charData = replicate 190 255,
          x2charDataLight = replicate 760 204, x1charDataLight = replicate 190 213\<rparr>
        \<lparr>width = 4, height = 4, data = replicate 64 9\<rparr> 3 0 65
        (new_ParsedColor 255 255 255) (new_ParsedColor 0 0 0)
      = ([''bad render request outside image data''], \<lparr>width = 4, height = 4, data = replicate 64 9\<rparr>)
   \<and> int (height \<lparr>width = 4, height = 4, data = replicate 64 9\<rparr>) < 3 + 2
   \<and> x1RenderChar
        \<lparr>x2charData = replicate 760 255, x1charData = replicate 190 255,
          x2charDataLight = replicate 760 204, x1charDataLight = replicate 190 213\<rparr>
        \<lparr>width = 4, height = 4, data = replicate 64 9\<rparr> 0 3 65
        (new_ParsedColor 255 255 255) (new_ParsedColor 0 0 0)
      = ([''bad render request outside image data''], \<lparr>width = 4, height = 4, data = replicate 64 9\<rparr>)"
proof -
  let ?rnd = "\<lparr>x2charData = replicate 760 255, x1charData = replicate 190 255,
          x2charDataLight = replicate 760 204, x1charDataLight = replicate 190 213\<rparr>"
  let ?t = "\<lparr>width = 4, height = 4, data = replicate 64 9\<rparr>"
  have w: "int (width ?t) < 3 + 2" by simp
  have h: "int (height ?t) < 3 + 2" by simp
  have a: "x2RenderChar ?rnd ?t 3 0 65 (new_ParsedColor 255 255 255) (new_ParsedColor 0 0 0)
      = ([''bad render request outside image data''], ?t)"
    using w
    by (intro render_outside_target_is_noop [THEN conjunct1, rule_format] disjI1)
  have b: "x1RenderChar ?rnd ?t 0 3 65 (new_ParsedColor 255 255 255) (new_ParsedColor 0 0 0)
      = ([''bad render request outside image data''], ?t)"
    using h
    by (intro render_outside_target_is_noop [THEN conjunct2, rule_format] disjI2)
  from w a h b show ?thesis
    by (intro conjI)
qed


text \<open>
  Claim C8. For a renderer that the constructor built, a character code that is not
  negative and a target with four bytes for each pixel: when the character fits into the
  target at \<open>(dx, dy)\<close>, the red, green and blue byte of every sample pixel hold
  \<open>background + (foreground - background) * (sample / 255)\<close>, as the clamped array
  stores it (the nearest integer in 0..255); the sample is read from the softened atlas
  exactly when the background colour is light; and no alpha byte is ever written.
\<close>

theorem render_interpolates_rgb:
  assumes rnd: "new_MinimapCharRenderer x2CharData x1CharData = Inr rnd"
    and ch: "0 \<le> chCode"
    and org: "0 \<le> dx" "0 \<le> dy"
    and len: "length (data target) = 4 * width target * height target"
  shows
    "(dx + 2 \<le> int (width target) \<and> dy + 4 \<le> int (height target) \<longrightarrow>
       fst (x2RenderChar rnd target dx dy chCode color backgroundColor) = []
       \<and> (\<forall>j \<in> {0, 1, 2, 3}. \<forall>i \<in> {0, 1}. \<forall>k \<in> {0, 1, 2}.
            data (snd (x2RenderChar rnd target dx dy chCode color backgroundColor))
              ! nat (pixel_offset target (dx + i) (dy + j) + k)
            = toUint8Clamp (Some (spec_interpolate (channel k backgroundColor) (channel k color)
                ((if isLight backgroundColor then x2charDataLight rnd else x2charData rnd)
                   ! nat (getChIndex chCode * 8 + 2 * j + i))))))
     \<and> (dx + 1 \<le> int (width target) \<and> dy + 2 \<le> int (height target) \<longrightarrow>
       fst (x1RenderChar rnd target dx dy chCode color backgroundColor) = []
       \<and> (\<forall>j \<in> {0, 1}. \<forall>k \<in> {0, 1, 2}.
            data (snd (x1RenderChar rnd target dx dy chCode color backgroundColor))
              ! nat (pixel_offset target dx (dy + j) + k)
            = toUint8Clamp (Some (spec_interpolate (channel k backgroundColor) (channel k color)
                ((if isLight backgroundColor then x1charDataLight rnd else x1charData rnd)
                   ! nat (getChIndex chCode * 2 + j))))))
     \<and> (\<forall>n. n mod 4 = 3 \<longrightarrow>
           data (snd (x2RenderChar rnd target dx dy chCode color backgroundColor)) ! n = data target ! n
           \<and> data (snd (x1RenderChar rnd target dx dy chCode color backgroundColor)) ! n = data target ! n)
     \<and> x2charDataLight rnd = soften (x2charData rnd) (12 / 15)
     \<and> x1charDataLight rnd = soften (x1charData rnd) (50 / 60)"
proof (intro conjI impI ballI allI)
  assume "dx + 2 \<le> int (width target) \<and> dy + 4 \<le> int (height target)"
  then show "fst (x2RenderChar rnd target dx dy chCode color backgroundColor) = []"
    by (simp add: x2RenderChar_def)
next
  fix j i k :: int
  assume "dx + 2 \<le> int (width target) \<and> dy + 4 \<le> int (height target)"
    and "j \<in> {0, 1, 2, 3}" "i \<in> {0, 1}" "k \<in> {0, 1, 2}"
  then show "data (snd (x2RenderChar rnd target dx dy chCode color backgroundColor))
              ! nat (pixel_offset target (dx + i) (dy + j) + k)
            = toUint8Clamp (Some (spec_interpolate (channel k backgroundColor) (channel k color)
                ((if isLight backgroundColor then x2charDataLight rnd else x2charData rnd)
                   ! nat (getChIndex chCode * 8 + 2 * j + i))))"
    using rnd ch org len by (intro x2_sample_written) simp_all
next
  assume "dx + 1 \<le> int (width target) \<and> dy + 2 \<le> int (height target)"
  then show "fst (x1RenderChar rnd target dx dy chCode color backgroundColor) = []"
    by (simp add: x1RenderChar_def)
next
  fix j k :: int
  assume "dx + 1 \<le> int (width target) \<and> dy + 2 \<le> int (height target)"
    and "j \<in> {0, 1}" "k \<in> {0, 1, 2}"
  then show "data (snd (x1RenderChar rnd target dx dy chCode color backgroundColor))
              ! nat (pixel_offset target dx (dy + j) + k)
            = toUint8Clamp (Some (spec_interpolate (channel k backgroundColor) (channel k color)
                ((if isLight backgroundColor then x1charDataLight rnd else x1charData rnd)
                   ! nat (getChIndex chCode * 2 + j))))"
    using rnd ch org len by (intro x1_sample_written) simp_all
next
  fix n :: nat
  assume "n mod 4 = 3"
  then show "data (snd (x2RenderChar rnd target dx dy chCode color backgroundColor)) ! n = data target ! n"
    by (rule x2_alpha_unwritten)
next
  fix n :: nat
  assume "n mod 4 = 3"
  then show "data (snd (x1RenderChar rnd target dx dy chCode color backgroundColor)) ! n = data target ! n"
    by (rule x1_alpha_unwritten)
next
  show "x2charDataLight rnd = soften (x2charData rnd) (12 / 15)"
    using renderer_light [OF rnd] by simp
  show "x1charDataLight rnd = soften (x1charData rnd) (50 / 60)"
    using renderer_light [OF rnd] by simp
qed

theorem render_interpolates_rgb_witness:
  "new_MinimapCharRenderer (replicate 760 200) (replicate 190 100)
     = Inr \<lparr>x2charData = replicate 760 200, x1charData = replicate 190 100,
            x2charDataLight = soften (replicate 760 200) (12 / 15),
            x1charDataLight = soften (replicate 190 100) (50 / 60)\<rparr>
   \<and> data (snd (x2RenderChar
        \<lparr>x2charData = replicate 760 200, x1charData = replicate 190 100,
          x2charDataLight = soften (replicate 760 200) (12 / 15),
          x1charDataLight = soften (replicate 190 100) (50 / 60)\<rparr>
        \<lparr>width = 2, height = 4, data = replicate 32 7\<rparr> 0 0 65
        (new_ParsedColor 255 128 0) (new_ParsedColor 0 0 0))) ! 29 = 100
   \<and> data (snd (x2RenderChar
        \<lparr>x2charData = replicate 760 200, x1charData = replicate 190 100,
          x2charDataLight = soften (replicate 760 200) (12 / 15),
          x1charDataLight = soften (replicate 190 100) (50 / 60)\<rparr>
        \<lparr>width = 2, height = 4, data = replicate 32 7\<rparr> 0 0 65
        (new_ParsedColor 255 128 0) (new_ParsedColor 0 0 0))) ! 31 = 7
   \<and> data (snd (x1RenderChar
        \<lparr>x2charData = replicate 760 200, x1charData = replicate 190 100,
          x2charDataLight = soften (replicate 760 200) (12 / 15),
          x1charDataLight = soften (replicate 190 100) (50 / 60)\<rparr>
        \<lparr>width = 2, height = 4, data = replicate 32 7\<rparr> 0 0 65
        (new_ParsedColor 0 0 0) (new_ParsedColor 255 255 255))) ! 8 = 172"
proof -
  let ?rnd = "\<lparr>x2charData = replicate 760 200, x1charData = replicate 190 100,
          x2charDataLight = soften (replicate 760 200) (12 / 15),
          x1charDataLight = soften (replicate 190 100) (50 / 60)\<rparr>"
  let ?t = "\<lparr>width = 2, height = 4, data = replicate 32 7\<rparr>"
  let ?fg = "new_ParsedColor 255 128 0"
  let ?black = "new_ParsedColor 0 0 0"
  let ?white = "new_ParsedColor 255 255 255"
  have rnd: "new_MinimapCharRenderer (replicate 760 200) (replicate 190 100) = Inr ?rnd"
    by (simp add: new_MinimapCharRenderer_def)
  have ch: "(0::int) \<le> 65" by simp
  have z: "(0::int) \<le> 0" by simp
  have len: "length (data ?t) = 4 * width ?t * height ?t" by simp
  have idx: "getChIndex 65 = 33"
    by (simp add: getChIndex_mod)
  note dark = render_interpolates_rgb [OF rnd ch z z len, of ?fg ?black]
  note light = render_interpolates_rgb [OF rnd ch z z len, of ?black ?white]
  have "data (snd (x2RenderChar ?rnd ?t 0 0 65 ?fg ?black)) ! nat (pixel_offset ?t (0 + 1) (0 + 3) + 1)
      = toUint8Clamp (Some (spec_interpolate (channel 1 ?black) (channel 1 ?fg)
          ((if isLight ?black then x2charDataLight ?rnd else x2charData ?rnd)
             ! nat (getChIndex 65 * 8 + 2 * 3 + 1))))"
    using dark by simp
  also have "nat (pixel_offset ?t (0 + 1) (0 + 3) + 1) = 29"
    by (simp add: pixel_offset_def)
  also have "toUint8Clamp (Some (spec_interpolate (channel 1 ?black) (channel 1 ?fg)
          ((if isLight ?black then x2charDataLight ?rnd else x2charData ?rnd)
             ! nat (getChIndex 65 * 8 + 2 * 3 + 1)))) = 100"
    by (simp add: idx new_ParsedColor_def new_parsed_color_def channel_def spec_interpolate_def
        toUint8Clamp_nearest [of 100])
  finally have a: "data (snd (x2RenderChar ?rnd ?t 0 0 65 ?fg ?black)) ! 29 = 100" .
  have b: "data (snd (x2RenderChar ?rnd ?t 0 0 65 ?fg ?black)) ! 31 = 7"
    using dark by simp
  have "data (snd (x1RenderChar ?rnd ?t 0 0 65 ?black ?white)) ! nat (pixel_offset ?t 0 (0 + 1) + 0)
      = toUint8Clamp (Some (spec_interpolate (channel 0 ?white) (channel 0 ?black)
          ((if isLight ?white then x1charDataLight ?rnd else x1charData ?rnd)
             ! nat (getChIndex 65 * 2 + 1))))"
    using light by simp
  also have "nat (pixel_offset ?t 0 (0 + 1) + 0) = 8"
    by (simp add: pixel_offset_def)
  also have "toUint8Clamp (Some (spec_interpolate (channel 0 ?white) (channel 0 ?black)
          ((if isLight ?white then x1charDataLight ?rnd else x1charData ?rnd)
             ! nat (getChIndex 65 * 2 + 1)))) = 172"
    by (simp add: idx new_ParsedColor_def new_parsed_color_def channel_def spec_interpolate_def soften_def
        toUint8Clamp_nearest [of 83] toUint8Clamp_nearest [of 172])
  finally have c: "data (snd (x1RenderChar ?rnd ?t 0 0 65 ?black ?white)) ! 8 = 172" .
  from rnd a b c show ?thesis
    by (intro conjI)
qed

text \<open>
  Claim C10. The guard looks at the right and the bottom edge only. With a negative
  \<open>dx\<close> or \<open>dy\<close> that keeps \<open>dx\<close> plus the width and \<open>dy\<close> plus the height of a
  character inside the target, the call is not rejected, and its stores go to the offsets
  \<open>pixel_offset target (dx + i) (dy + j) + k\<close> computed from the negative coordinate.
\<close>

theorem negative_origin_passes_guard:
  "((dx < 0 \<or> dy < 0) \<and> dx + 2 \<le> int (width target) \<and> dy + 4 \<le> int (height target) \<longrightarrow>
      fst (x2RenderChar rnd target dx dy chCode color backgroundColor) = []
      \<and> data (snd (x2RenderChar rnd target dx dy chCode color backgroundColor))
          = foldl u8c_set (data target) (x2_stores rnd target dx dy chCode color backgroundColor)
      \<and> fst ` set (x2_stores rnd target dx dy chCode color backgroundColor)
          = (\<lambda>(j, i, k). pixel_offset target (dx + i) (dy + j) + k) ` ({0, 1, 2, 3} \<times> {0, 1} \<times> {0, 1, 2}))
   \<and> ((dx < 0 \<or> dy < 0) \<and> dx + 1 \<le> int (width target) \<and> dy + 2 \<le> int (height target) \<longrightarrow>
      fst (x1RenderChar rnd target dx dy chCode color backgroundColor) = []
      \<and> data (snd (x1RenderChar rnd target dx dy chCode color backgroundColor))
          = foldl u8c_set (data target) (x1_stores rnd target dx dy chCode color backgroundColor)
      \<and> fst ` set (x1_stores rnd target dx dy chCode color backgroundColor)
          = (\<lambda>(j, k). pixel_offset target dx (dy + j) + k) ` ({0, 1} \<times> {0, 1, 2}))"
  by (simp add: x2RenderChar_def x1RenderChar_def x2_offsets_set x1_offsets_set)

theorem negative_origin_passes_guard_witness:
  "((-1::int) < 0 \<or> (1::int) < 0)
   \<and> - 1 + 2 \<le> int (width \<lparr>width = 4, height = 5, data = replicate 80 0\<rparr>)
   \<and> 1 + 4 \<le> int (height \<lparr>width = 4, height = 5, data = replicate 80 0\<rparr>)
   \<and> fst (x2RenderChar
        \<lparr>x2charData = replicate 760 255, x1charData = replicate 190 255,
          x2charDataLight = replicate 760 204, x1charDataLight = replicate 190 213\<rparr>
        \<lparr>width = 4, height = 5, data = replicate 80 0\<rparr> (- 1) 1 65
        (new_ParsedColor 255 255 255) (new_ParsedColor 0 0 0)) = []
   \<and> data (snd (x2RenderChar
        \<lparr>x2charData = replicate 760 255, x1charData = replicate 190 255,
          x2charDataLight = replicate 760 204, x1charDataLight = replicate 190 213\<rparr>
        \<lparr>width = 4, height = 5, data = replicate 80 0\<rparr> (- 1) 1 65
        (new_ParsedColor 255 255 255) (new_ParsedColor 0 0 0))) ! 12 = 255
   \<and> data \<lparr>width = 4, height = 5, data = replicate 80 0\<rparr> ! 12 = 0
   \<and> fst (x1RenderChar
        \<lparr>x2charData = replicate 760 255, x1charData = replicate 190 255,
          x2charDataLight = replicate 760 204, x1charDataLight = replicate 190 213\<rparr>
        \<lparr>width = 4, height = 5, data = replicate 80 0\<rparr> (- 1) 1 65
        (new_ParsedColor 255 255 255) (new_ParsedColor 0 0 0)) = []
   \<and> data (snd (x1RenderChar
        \<lparr>x2charData = replicate 760 255, x1charData = replicate 190 255,
          x2charDataLight = replicate 760 204, x1charDataLight = replicate 190 213\<rparr>
        \<lparr>width = 4, height = 5, data = replicate 80 0\<rparr> (- 1) 1 65
        (new_ParsedColor 255 255 255) (new_ParsedColor 0 0 0))) ! 12 = 255"
proof -
  let ?rnd = "\<lparr>x2charData = replicate 760 255, x1charData = replicate 190 255,
          x2charDataLight = replicate 760 204, x1charDataLight = replicate 190 213\<rparr>"
  let ?t = "\<lparr>width = 4, height = 5, data = replicate 80 0\<rparr>"
  let ?fg = "new_ParsedColor 255 255 255"
  let ?bg = "new_ParsedColor 0 0 0"
  have neg: "(-1::int) < 0 \<or> (1::int) < 0" by simp
  have w2: "- 1 + 2 \<le> int (width ?t)" and h2: "1 + 4 \<le> int (height ?t)" by simp_all
  have w1: "- 1 + 1 \<le> int (width ?t)" and h1: "1 + 2 \<le> int (height ?t)" by simp_all
  note t = negative_origin_passes_guard [of "- 1" 1 ?t ?rnd 65 ?fg ?bg]
  note t2 = t [THEN conjunct1, rule_format, OF conjI [OF neg conjI [OF w2 h2]]]
  note t1 = t [THEN conjunct2, rule_format, OF conjI [OF neg conjI [OF w1 h1]]]
  have idx: "getChIndex 65 = 33"
    by (simp add: getChIndex_mod)
  have a: "fst (x2RenderChar ?rnd ?t (- 1) 1 65 ?fg ?bg) = []"
    using t2 [THEN conjunct1] .
  have d2: "data (snd (x2RenderChar ?rnd ?t (- 1) 1 65 ?fg ?bg))
      = foldl u8c_set (data ?t) (x2_stores ?rnd ?t (- 1) 1 65 ?fg ?bg)"
    using t2 [THEN conjunct2, THEN conjunct1] .
  have dist2: "distinct (map fst (x2_stores ?rnd ?t (- 1) 1 65 ?fg ?bg))"
    by (rule distinct_x2_offsets) simp
  have dist1: "distinct (map fst (x1_stores ?rnd ?t (- 1) 1 65 ?fg ?bg))"
    by (rule distinct_x1_offsets) simp
  have m2: "(12, Some 255) \<in> set (x2_stores ?rnd ?t (- 1) 1 65 ?fg ?bg)"
    by (simp add: x2_stores_def Let_def idx new_ParsedColor_def new_parsed_color_def u8c_get_def div255_def blend_def)
  have "foldl u8c_set (data ?t) (x2_stores ?rnd ?t (- 1) 1 65 ?fg ?bg) ! nat 12 = toUint8Clamp (Some 255)"
    using dist2 m2 by (rule foldl_u8c_set_written) simp_all
  then have b: "data (snd (x2RenderChar ?rnd ?t (- 1) 1 65 ?fg ?bg)) ! 12 = 255"
    by (simp add: d2 toUint8Clamp_def)
  have c: "data ?t ! 12 = 0" by simp
  have d: "fst (x1RenderChar ?rnd ?t (- 1) 1 65 ?fg ?bg) = []"
    using t1 [THEN conjunct1] .
  have d1: "data (snd (x1RenderChar ?rnd ?t (- 1) 1 65 ?fg ?bg))
      = foldl u8c_set (data ?t) (x1_stores ?rnd ?t (- 1) 1 65 ?fg ?bg)"
    using t1 [THEN conjunct2, THEN conjunct1] .
  have m1: "(12, Some 255) \<in> set (x1_stores ?rnd ?t (- 1) 1 65 ?fg ?bg)"
    by (simp add: x1_stores_def Let_def idx new_ParsedColor_def new_parsed_color_def u8c_get_def div255_def blend_def)
  have "foldl u8c_set (data ?t) (x1_stores ?rnd ?t (- 1) 1 65 ?fg ?bg) ! nat 12 = toUint8Clamp (Some 255)"
    using dist1 m1 by (rule foldl_u8c_set_written) simp_all
  then have e: "data (snd (x1RenderChar ?rnd ?t (- 1) 1 65 ?fg ?bg)) ! 12 = 255"
    by (simp add: d1 toUint8Clamp_def)
  from neg w2 h2 a b c d e show ?thesis
    by (intro conjI)
qed

end
